theory Spec2Isabelle
  imports Main
begin

section \<open>Python values\<close>

text \<open>
  The values the program handles: environment settings, the fields of a fetched row and
  the destination argument of the notifier. \<open>PyNone\<close> is Python's \<open>None\<close>; timestamps and
  other driver objects are represented by the text their \<open>str()\<close> gives.
\<close>

datatype pyval = PyNone | PyInt int | PyStr string

text \<open>Truth value testing, as \<open>not x\<close>, \<open>x or y\<close> and \<open>if x\<close> apply it.\<close>

fun truthy :: "pyval \<Rightarrow> bool" where
  "truthy PyNone = False"
| "truthy (PyInt n) = (n \<noteq> 0)"
| "truthy (PyStr s) = (s \<noteq> [])"

definition py_or :: "pyval \<Rightarrow> pyval \<Rightarrow> pyval" where
  "py_or x y = (if truthy x then x else y)"

definition digit_char :: "nat \<Rightarrow> char" where
  "digit_char d = ''0123456789'' ! d"

fun string_of_nat :: "nat \<Rightarrow> string" where
  "string_of_nat n =
     (if n < 10 then [digit_char n] else string_of_nat (n div 10) @ [digit_char (n mod 10)])"

declare string_of_nat.simps [simp del]

definition string_of_int :: "int \<Rightarrow> string" where
  "string_of_int i = (if i < 0 then CHR ''-'' # string_of_nat (nat (- i)) else string_of_nat (nat i))"

text \<open>What an f-string interpolation \<open>{x}\<close> renders.\<close>

fun str_of :: "pyval \<Rightarrow> string" where
  "str_of PyNone = ''None''"
| "str_of (PyInt n) = string_of_int n"
| "str_of (PyStr s) = s"

text \<open>\<open>sep.join(parts)\<close>.\<close>

fun join :: "string \<Rightarrow> string list \<Rightarrow> string" where
  "join sep [] = []"
| "join sep [p] = p"
| "join sep (p # q # ps) = p @ sep @ join sep (q # ps)"

section \<open>Exceptions\<close>

text \<open>
  The subclasses of \<open>Exception\<close> that the program raises or receives from its libraries.
  \<open>ValueError_int\<close> is the \<open>ValueError\<close> of \<open>int()\<close> and carries the rejected literal;
  \<open>ValueError_missing\<close> is the \<open>ValueError\<close> of \<open>_validate_config\<close> and carries the list
  interpolated into its message. \<open>ConnectionError\<close>, \<open>Timeout\<close> and \<open>HTTPError\<close> are the
  subclasses of \<open>requests.exceptions.RequestException\<close>. Interrupts (\<open>KeyboardInterrupt\<close>)
  are not subclasses of \<open>Exception\<close> and are not modelled.
\<close>

datatype exn =
    ValueError_int string
  | ValueError_missing "string list"
  | IndexError
  | DriverError string
  | ConnectionError string
  | Timeout string
  | HTTPError nat
  | OtherError string

fun is_request_exception :: "exn \<Rightarrow> bool" where
  "is_request_exception (ConnectionError m) = True"
| "is_request_exception (Timeout m) = True"
| "is_request_exception (HTTPError st) = True"
| "is_request_exception e = False"

section \<open>Configuration (\<open>__init__\<close>, \<open>_validate_config\<close>)\<close>












text \<open>The object \<open>self\<close> of class \<open>DatabaseTelegramBot\<close>.\<close>

record bot =
  db_server :: pyval
  db_database :: pyval
  db_username :: pyval
  db_password :: pyval
  db_view :: string
  db_table :: string
  telegram_token :: pyval
  telegram_chat_id :: pyval
  poll_interval :: int





section \<open>The outside world\<close>

text \<open>
  A fetched row is the sequence of its fields; its width is not fixed, since
  \<open>format_message\<close> provides for rows of fewer than four fields. The data store, the driver
  and the messaging endpoint are outside the program; the model gives them as a state:
  \<^item> \<open>store\<close>: the committed rows, which the configured view shows and the configured table
    holds (the two are taken to show the same rows); \<open>staged\<close>: the identifiers bound to the
    \<open>DELETE\<close> statements of the open transaction, which take effect at \<open>commit\<close>; \<open>rowcount\<close>:
    the driver's count for the last statement;
  \<^item> \<open>open_conns\<close>: connections opened and not closed;
  \<^item> \<open>db_faults\<close>: whether the driver call number \<open>n\<close> raises, and what; \<open>db_calls\<close> counts
    the driver calls made so far;
  \<^item> \<open>http_replies\<close>: what the HTTP request number \<open>n\<close> meets, a response with its status
    or an exception; \<open>http_calls\<close> counts the requests made so far;
  \<^item> \<open>trace\<close>: every logging call, driver call, HTTP request and sleep, in order. A driver
    call and a request are recorded when they are made, whether or not they raise. A
    logging call is recorded with its level, its message up to an interpolated exception,
    and that exception when the message interpolates one.
\<close>

type_synonym row = "pyval list"

datatype log_level = DEBUG | INFO | WARNING | ERROR

record payload =
  p_chat_id :: pyval
  p_text :: string
  p_parse_mode :: string

datatype db_op =
    Connect string
  | Cursor
  | Execute string "pyval list"
  | Fetchall
  | Commit
  | CursorClose
  | ConnClose

datatype event =
    Log log_level string "exn option"
  | Db db_op
  | HttpPost string payload nat
  | Sleep nat

datatype http_outcome = Responds nat | Raises exn

record world =
  store :: "row list"
  staged :: "pyval list"
  rowcount :: int
  open_conns :: nat
  db_faults :: "nat \<Rightarrow> exn option"
  db_calls :: nat
  http_replies :: "nat \<Rightarrow> http_outcome"
  http_calls :: nat
  trace :: "event list"

text \<open>
  A statement sequence that may raise: it takes the world and gives back the exception
  raised or the value returned, and the world it leaves.
\<close>

type_synonym 'a action = "world \<Rightarrow> (exn + 'a) \<times> world"

definition pure_a :: "'a \<Rightarrow> 'a action" where
  "pure_a x = (\<lambda>w. (Inr x, w))"

definition raise_a :: "exn \<Rightarrow> 'a action" where
  "raise_a e = (\<lambda>w. (Inl e, w))"

definition bind_a :: "'a action \<Rightarrow> ('a \<Rightarrow> 'b action) \<Rightarrow> 'b action" where
  "bind_a m f = (\<lambda>w. case m w of (Inl e, w') \<Rightarrow> (Inl e, w') | (Inr x, w') \<Rightarrow> f x w')"

text \<open>\<open>try: m except Exception as e: h e\<close>.\<close>

definition catch_a :: "'a action \<Rightarrow> (exn \<Rightarrow> 'a action) \<Rightarrow> 'a action" where
  "catch_a m h = (\<lambda>w. case m w of (Inl e, w') \<Rightarrow> h e w' | (Inr x, w') \<Rightarrow> (Inr x, w'))"

text \<open>\<open>try: m except requests.exceptions.RequestException as e: h e\<close>.\<close>

definition catch_request :: "'a action \<Rightarrow> (exn \<Rightarrow> 'a action) \<Rightarrow> 'a action" where
  "catch_request m h =
     (\<lambda>w. case m w of
            (Inl e, w') \<Rightarrow> if is_request_exception e then h e w' else (Inl e, w')
          | (Inr x, w') \<Rightarrow> (Inr x, w'))"

definition emit :: "event \<Rightarrow> unit action" where
  "emit ev = (\<lambda>w. (Inr (), w\<lparr>trace := trace w @ [ev]\<rparr>))"

definition logger :: "log_level \<Rightarrow> string \<Rightarrow> exn option \<Rightarrow> unit action" where
  "logger lvl msg e = emit (Log lvl msg e)"

definition time_sleep :: "nat \<Rightarrow> unit action" where
  "time_sleep secs = emit (Sleep secs)"

subsection \<open>The database driver\<close>

text \<open>
  Every driver call is recorded and counted; it raises when the world says so, and has
  its effect otherwise.
\<close>

definition driver_call :: "db_op \<Rightarrow> (world \<Rightarrow> world) \<Rightarrow> unit action" where
  "driver_call opn eff =
     (\<lambda>w. let w1 = w\<lparr>db_calls := Suc (db_calls w), trace := trace w @ [Db opn]\<rparr>
          in case db_faults w (db_calls w) of
               Some e \<Rightarrow> (Inl e, w1)
             | None \<Rightarrow> (Inr (), eff w1))"

definition pyodbc_connect :: "string \<Rightarrow> unit action" where
  "pyodbc_connect cs =
     driver_call (Connect cs) (\<lambda>w. w\<lparr>open_conns := Suc (open_conns w), staged := []\<rparr>)"

definition conn_cursor :: "unit action" where
  "conn_cursor = driver_call Cursor (\<lambda>w. w)"

definition cursor_execute_select :: "string \<Rightarrow> unit action" where
  "cursor_execute_select query = driver_call (Execute query []) (\<lambda>w. w\<lparr>rowcount := - 1\<rparr>)"

definition cursor_fetchall :: "row list action" where
  "cursor_fetchall = bind_a (driver_call Fetchall (\<lambda>w. w)) (\<lambda>u w. (Inr (store w), w))"

text \<open>A row matches \<open>id IN (ids)\<close> when its first column is one of the identifiers.\<close>

fun matches :: "pyval list \<Rightarrow> row \<Rightarrow> bool" where
  "matches ids [] = False"
| "matches ids (x # xs) = (x \<in> set ids)"

definition cursor_execute_delete :: "string \<Rightarrow> pyval list \<Rightarrow> unit action" where
  "cursor_execute_delete query ids =
     driver_call (Execute query ids)
       (\<lambda>w. w\<lparr>staged := staged w @ ids,
               rowcount := int (length (filter (matches ids) (store w)))\<rparr>)"

definition conn_commit :: "unit action" where
  "conn_commit =
     driver_call Commit
       (\<lambda>w. w\<lparr>store := filter (\<lambda>r. \<not> matches (staged w) r) (store w), staged := []\<rparr>)"

definition cursor_rowcount :: "int action" where
  "cursor_rowcount = (\<lambda>w. (Inr (rowcount w), w))"

definition cursor_close :: "unit action" where
  "cursor_close = driver_call CursorClose (\<lambda>w. w)"

definition conn_close :: "unit action" where
  "conn_close = driver_call ConnClose (\<lambda>w. w\<lparr>open_conns := open_conns w - 1\<rparr>)"

subsection \<open>The HTTP client\<close>

definition requests_post :: "string \<Rightarrow> payload \<Rightarrow> nat \<Rightarrow> nat action" where
  "requests_post url p timeout =
     (\<lambda>w. let w1 = w\<lparr>http_calls := Suc (http_calls w), trace := trace w @ [HttpPost url p timeout]\<rparr>
          in case http_replies w (http_calls w) of
               Raises e \<Rightarrow> (Inl e, w1)
             | Responds st \<Rightarrow> (Inr st, w1))"

text \<open>\<open>response.raise_for_status()\<close>: the statuses 400 to 599 raise \<open>HTTPError\<close>.\<close>

definition error_status :: "nat \<Rightarrow> bool" where
  "error_status st = (400 \<le> st \<and> st < 600)"

definition raise_for_status :: "nat \<Rightarrow> unit action" where
  "raise_for_status st = (if error_status st then raise_a (HTTPError st) else pure_a ())"

section \<open>Record Source and Sink (\<open>get_db_connection\<close>, \<open>fetch_pending_messages\<close>,
  \<open>delete_processed_records\<close>)\<close>

definition connection_string :: "bot \<Rightarrow> string" where
  "connection_string self =
     ''DRIVER={ODBC Driver 18 for SQL Server};'' @
     ''SERVER='' @ str_of (db_server self) @ '';'' @
     ''DATABASE='' @ str_of (db_database self) @ '';'' @
     ''UID='' @ str_of (db_username self) @ '';'' @
     ''PWD='' @ str_of (db_password self) @ '';'' @
     ''TrustServerCertificate=yes;''"

definition get_db_connection :: "bot \<Rightarrow> unit action" where
  "get_db_connection self =
     catch_a
       (bind_a (pyodbc_connect (connection_string self)) (\<lambda>conn.
        bind_a (logger INFO ''Database connection established successfully'' None) (\<lambda>u.
        pure_a conn)))
       (\<lambda>e. bind_a (logger ERROR ''Failed to connect to database: '' (Some e)) (\<lambda>u.
            raise_a e))"

definition select_query :: "bot \<Rightarrow> string" where
  "select_query self = ''SELECT id, message_text, recipient, created_at FROM '' @ db_view self"

definition fetch_pending_messages :: "bot \<Rightarrow> row list action" where
  "fetch_pending_messages self =
     catch_a
       (bind_a (get_db_connection self) (\<lambda>conn.
        bind_a conn_cursor (\<lambda>cursor.
        bind_a (cursor_execute_select (select_query self)) (\<lambda>u.
        bind_a cursor_fetchall (\<lambda>records.
        bind_a cursor_close (\<lambda>u.
        bind_a conn_close (\<lambda>u.
        bind_a (logger INFO (''Fetched '' @ string_of_nat (length records) @ '' pending messages'') None) (\<lambda>u.
        pure_a records))))))))
       (\<lambda>e. bind_a (logger ERROR ''Error fetching messages: '' (Some e)) (\<lambda>u.
            pure_a []))"

definition delete_query :: "bot \<Rightarrow> pyval list \<Rightarrow> string" where
  "delete_query self record_ids =
     ''DELETE FROM '' @ db_table self @ '' WHERE id IN ('' @
       join '','' (map (\<lambda>i. ''?'') record_ids) @ '')''"

definition delete_processed_records :: "bot \<Rightarrow> pyval list \<Rightarrow> unit action" where
  "delete_processed_records self record_ids =
     (if record_ids = [] then pure_a ()
      else
        catch_a
          (bind_a (get_db_connection self) (\<lambda>conn.
           bind_a conn_cursor (\<lambda>cursor.
           bind_a (cursor_execute_delete (delete_query self record_ids) record_ids) (\<lambda>u.
           bind_a conn_commit (\<lambda>u.
           bind_a cursor_rowcount (\<lambda>deleted_count.
           bind_a cursor_close (\<lambda>u.
           bind_a conn_close (\<lambda>u.
           logger INFO (''Deleted '' @ string_of_int deleted_count @ '' processed records'') None))))))))
          (\<lambda>e. logger ERROR ''Error deleting processed records: '' (Some e)))"

section \<open>Notifier (\<open>send_telegram_message\<close>)\<close>

definition send_url :: "bot \<Rightarrow> string" where
  "send_url self = ''https://api.telegram.org/bot'' @ str_of (telegram_token self) @ ''/sendMessage''"

definition send_telegram_message :: "bot \<Rightarrow> string \<Rightarrow> pyval \<Rightarrow> bool action" where
  "send_telegram_message self message_text chat_id =
     catch_request
       (let chat = py_or chat_id (telegram_chat_id self);
            url = send_url self;
            pl = \<lparr> p_chat_id = chat, p_text = message_text, p_parse_mode = ''HTML'' \<rparr>
        in bind_a (requests_post url pl 30) (\<lambda>response.
           bind_a (raise_for_status response) (\<lambda>u.
           bind_a (logger INFO (''Message sent successfully to chat '' @ str_of chat) None) (\<lambda>u.
           pure_a True))))
       (\<lambda>e. bind_a (logger ERROR ''Failed to send Telegram message: '' (Some e)) (\<lambda>u.
            pure_a False))"

section \<open>Message Formatter (\<open>format_message\<close>)\<close>

text \<open>
  The four characters that follow \<open><b>\<close> in the source's two literals, as the bytes the
  source file holds for them.
\<close>

definition envelope :: string where
  "envelope = [CHR 0xC3, CHR 0xB0, CHR 0xC5, CHR 0xB8, CHR 0xE2, CHR 0x80, CHR 0x9C, CHR 0xC2, CHR 0xA8]"

text \<open>
  \<open>raw\<close> is Python's \<open>str\<close> on the row object, which the source calls and the driver
  defines.
\<close>

definition format_message :: "(row \<Rightarrow> string) \<Rightarrow> row \<Rightarrow> string" where
  "format_message raw record =
     join [CHR 0x0A]
       (if length record \<ge> 4 then
          (let record_id = record ! 0; message_text = record ! 1;
               recipient = record ! 2; created_at = record ! 3
           in [''<b>'' @ envelope @ '' New Message</b>'',
               ''<b>ID:</b> '' @ str_of record_id,
               ''<b>To:</b> '' @ str_of recipient,
               ''<b>Message:</b> '' @ str_of message_text,
               ''<b>Time:</b> '' @ str_of created_at])
        else [''<b>'' @ envelope @ '' Record:</b> '' @ raw record])"

section \<open>Relay Cycle (\<open>process_messages\<close>)\<close>

text \<open>\<open>record[0]\<close>: raises \<open>IndexError\<close> on a row without fields.\<close>

definition index0 :: "row \<Rightarrow> pyval action" where
  "index0 record = (case record of [] \<Rightarrow> raise_a IndexError | x # xs \<Rightarrow> pure_a x)"

text \<open>The body of the inner \<open>try\<close>, for one record; it returns \<open>successful_ids\<close>.\<close>

definition try_record :: "bot \<Rightarrow> (row \<Rightarrow> string) \<Rightarrow> row \<Rightarrow> pyval list \<Rightarrow> pyval list action" where
  "try_record self raw record successful_ids =
     (let formatted_message = format_message raw record
      in bind_a (send_telegram_message self formatted_message PyNone) (\<lambda>sent.
         bind_a
           (if sent then
              bind_a (index0 record) (\<lambda>i. pure_a (successful_ids @ [i]))
            else
              bind_a (index0 record) (\<lambda>i.
              bind_a (logger WARNING (''Failed to send message for record ID: '' @ str_of i) None) (\<lambda>u.
              pure_a successful_ids)))
           (\<lambda>ids.
         bind_a (time_sleep 1) (\<lambda>u.
         pure_a ids))))"

text \<open>The handler of the inner \<open>try\<close>: its message interpolates \<open>record[0]\<close>.\<close>

definition except_record :: "row \<Rightarrow> pyval list \<Rightarrow> exn \<Rightarrow> pyval list action" where
  "except_record record successful_ids e =
     bind_a (index0 record) (\<lambda>i.
     bind_a (logger ERROR (''Error processing record '' @ str_of i @ '': '') (Some e)) (\<lambda>u.
     pure_a successful_ids))"

text \<open>\<open>for record in records\<close>, with \<open>successful_ids\<close> as it stands before the record.\<close>

fun for_records :: "bot \<Rightarrow> (row \<Rightarrow> string) \<Rightarrow> row list \<Rightarrow> pyval list \<Rightarrow> pyval list action" where
  "for_records self raw [] successful_ids = pure_a successful_ids"
| "for_records self raw (record # rest) successful_ids =
     bind_a
       (catch_a (try_record self raw record successful_ids) (except_record record successful_ids))
       (\<lambda>ids. for_records self raw rest ids)"

definition cycle_summary :: "pyval list \<Rightarrow> string" where
  "cycle_summary successful_ids =
     ''Processing cycle completed. Sent '' @ string_of_nat (length successful_ids) @ '' messages''"

definition process_messages :: "bot \<Rightarrow> (row \<Rightarrow> string) \<Rightarrow> unit action" where
  "process_messages self raw =
     catch_a
       (bind_a (fetch_pending_messages self) (\<lambda>records.
        if records = [] then logger DEBUG ''No pending messages found'' None
        else
          bind_a (for_records self raw records []) (\<lambda>successful_ids.
          if successful_ids \<noteq> [] then
            bind_a (delete_processed_records self successful_ids) (\<lambda>u.
            logger INFO (cycle_summary successful_ids) None)
          else pure_a ())))
       (\<lambda>e. logger ERROR ''Error in process_messages: '' (Some e))"

section \<open>Specification-side definitions\<close>

text \<open>
  A send succeeds when the endpoint answers with a status that \<open>raise_for_status\<close> accepts.
\<close>

definition acknowledged :: "http_outcome \<Rightarrow> bool" where
  "acknowledged reply = (case reply of Responds st \<Rightarrow> \<not> error_status st | Raises e \<Rightarrow> False)"

text \<open>
  The success list as the specification words it: the identifiers (first fields) of the
  records whose send was acknowledged, in fetch order. The record number \<open>i\<close> of a cycle
  meets the HTTP reply number \<open>k + i\<close>, where \<open>k\<close> requests were made before the cycle.
\<close>

fun sent_ids :: "(nat \<Rightarrow> http_outcome) \<Rightarrow> nat \<Rightarrow> row list \<Rightarrow> pyval list" where
  "sent_ids replies k [] = []"
| "sent_ids replies k (r # rs) =
     (if acknowledged (replies k) then take 1 r else []) @ sent_ids replies (Suc k) rs"

text \<open>
  The request the cycle makes for a record: to the configured destination, with the
  record's formatted text.
\<close>

definition request_for :: "bot \<Rightarrow> (row \<Rightarrow> string) \<Rightarrow> row \<Rightarrow> event" where
  "request_for self raw record =
     HttpPost (send_url self)
       \<lparr> p_chat_id = telegram_chat_id self, p_text = format_message raw record,
         p_parse_mode = ''HTML'' \<rparr> 30"

text \<open>Events other than driver calls.\<close>

definition no_db_event :: "event \<Rightarrow> bool" where
  "no_db_event ev = (case ev of Db opn \<Rightarrow> False | _ \<Rightarrow> True)"

text \<open>The HTTP requests of a trace.\<close>

definition is_post :: "event \<Rightarrow> bool" where
  "is_post ev = (case ev of HttpPost url p t \<Rightarrow> True | _ \<Rightarrow> False)"

text \<open>
  The first exception among the driver calls \<open>k, ..., k + n - 1\<close>, if one of them raises.
  \<open>fetch_pending_messages\<close> and \<open>delete_processed_records\<close> make at most six driver calls each:
  connect, cursor, execute, then fetchall or commit, cursor close, connection close.
\<close>

fun next_fault :: "(nat \<Rightarrow> exn option) \<Rightarrow> nat \<Rightarrow> nat \<Rightarrow> exn option" where
  "next_fault faults k 0 = None"
| "next_fault faults k (Suc n) =
     (case faults k of Some e \<Rightarrow> Some e | None \<Rightarrow> next_fault faults (Suc k) n)"

section \<open>Concrete inputs\<close>


text \<open>The object constructed from it, with a view and a table named.\<close>

definition bot_example :: bot where
  "bot_example =
     \<lparr> db_server = PyStr ''db.example.org'', db_database = PyStr ''relay'',
       db_username = PyStr ''svc'', db_password = PyStr ''secret'',
       db_view = ''pending_view'', db_table = ''pending'',
       telegram_token = PyStr ''123:abc'', telegram_chat_id = PyStr ''42'', poll_interval = 30 \<rparr>"

text \<open>The rows of the specification's end-to-end scenario.\<close>

definition rows_example :: "row list" where
  "rows_example = [[PyInt 1, PyStr ''hi'', PyStr ''a'', PyStr ''t1''],
                   [PyInt 2, PyStr ''bye'', PyStr ''b'', PyStr ''t2'']]"

text \<open>A fetch result whose first record has no fields at all.\<close>

definition rows_fieldless :: "row list" where
  "rows_fieldless = [[], [PyInt 2, PyStr ''bye'', PyStr ''b'', PyStr ''t2'']]"

text \<open>A rendering of a row, standing for \<open>str(record)\<close> in the concrete inputs.\<close>

definition str_row_example :: "row \<Rightarrow> string" where
  "str_row_example r = ''('' @ join '', '' (map str_of r) @ '')''"

text \<open>
  A world at the start of a cycle: the given rows in the store, no open connection, no
  call made yet, and the given behaviour of the driver and of the endpoint.
\<close>

definition world_example :: "row list \<Rightarrow> (nat \<Rightarrow> exn option) \<Rightarrow> (nat \<Rightarrow> http_outcome) \<Rightarrow> world" where
  "world_example rows faults replies =
     \<lparr> store = rows, staged = [], rowcount = 0, open_conns = 0, db_faults = faults, db_calls = 0,
       http_replies = replies, http_calls = 0, trace = [] \<rparr>"

text \<open>Driver behaviours: no call raises; exactly the call number \<open>k\<close> raises.\<close>

definition no_faults :: "nat \<Rightarrow> exn option" where
  "no_faults n = None"

definition fault_at :: "nat \<Rightarrow> exn \<Rightarrow> nat \<Rightarrow> exn option" where
  "fault_at k e n = (if n = k then Some e else None)"

text \<open>The endpoint acknowledges every request.\<close>

definition all_acknowledged :: "nat \<Rightarrow> http_outcome" where
  "all_acknowledged n = Responds 200"

section \<open>Properties\<close>

subsection \<open>Auxiliary facts\<close>

lemmas monad_defs = pure_a_def raise_a_def bind_a_def catch_a_def catch_request_def emit_def logger_def time_sleep_def

text \<open>What one call of the notifier does, by the reply its request meets.\<close>

lemma send_cases:
  "send_telegram_message self txt d w =
     (let chat = py_or d (telegram_chat_id self);
          w1 = w\<lparr>http_calls := Suc (http_calls w),
                  trace := trace w @ [HttpPost (send_url self) \<lparr>p_chat_id = chat, p_text = txt, p_parse_mode = ''HTML''\<rparr> 30]\<rparr>
      in case http_replies w (http_calls w) of
           Responds st \<Rightarrow>
             if error_status st
             then (Inr False, w1\<lparr>trace := trace w1 @ [Log ERROR ''Failed to send Telegram message: '' (Some (HTTPError st))]\<rparr>)
             else (Inr True, w1\<lparr>trace := trace w1 @ [Log INFO (''Message sent successfully to chat '' @ str_of chat) None]\<rparr>)
         | Raises e \<Rightarrow>
             if is_request_exception e
             then (Inr False, w1\<lparr>trace := trace w1 @ [Log ERROR ''Failed to send Telegram message: '' (Some e)]\<rparr>)
             else (Inl e, w1))"
  by (simp add: send_telegram_message_def requests_post_def raise_for_status_def monad_defs Let_def
           split: http_outcome.splits)

text \<open>
  One pass of the loop body over a record that has a first field: it never raises, makes
  one request, appends the identifier exactly when the send was acknowledged, and makes no
  driver call.
\<close>

lemma one_record:
  "\<exists>evs. catch_a (try_record self raw (x # xs) acc) (except_record (x # xs) acc) w =
     (Inr (acc @ (if acknowledged (http_replies w (http_calls w)) then [x] else [])),
      w\<lparr>http_calls := Suc (http_calls w), trace := trace w @ evs\<rparr>) \<and>
     list_all no_db_event evs \<and> filter is_post evs = [request_for self raw (x # xs)]"
  by (auto simp add: try_record_def except_record_def index0_def send_cases acknowledged_def
        monad_defs Let_def no_db_event_def is_post_def request_for_def py_or_def
        split: http_outcome.splits)

lemma for_records_result:
  "\<forall>r \<in> set rs. r \<noteq> [] \<Longrightarrow>
   \<exists>evs. for_records self raw rs acc w =
     (Inr (acc @ sent_ids (http_replies w) (http_calls w) rs),
      w\<lparr>http_calls := http_calls w + length rs, trace := trace w @ evs\<rparr>) \<and>
     list_all no_db_event evs \<and> filter is_post evs = map (request_for self raw) rs"
proof (induction rs arbitrary: acc w)
  case Nil
  show ?case by (intro exI[of _ "[]"]) (simp add: pure_a_def)
next
  case (Cons r rs)
  then obtain x xs where r: "r = x # xs" by (cases r) auto
  obtain evs where one: "catch_a (try_record self raw (x # xs) acc) (except_record (x # xs) acc) w =
     (Inr (acc @ (if acknowledged (http_replies w (http_calls w)) then [x] else [])),
      w\<lparr>http_calls := Suc (http_calls w), trace := trace w @ evs\<rparr>)"
    and nodb: "list_all no_db_event evs"
    and post: "filter is_post evs = [request_for self raw (x # xs)]"
    using one_record by blast
  let ?acc = "acc @ (if acknowledged (http_replies w (http_calls w)) then [x] else [])"
  let ?w = "w\<lparr>http_calls := Suc (http_calls w), trace := trace w @ evs\<rparr>"
  from Cons.prems have "\<forall>r \<in> set rs. r \<noteq> []" by simp
  from Cons.IH[OF this, of ?acc ?w] obtain evs' where
    rest: "for_records self raw rs ?acc ?w =
      (Inr (?acc @ sent_ids (http_replies ?w) (http_calls ?w) rs),
       ?w\<lparr>http_calls := http_calls ?w + length rs, trace := trace ?w @ evs'\<rparr>)"
    and nodb': "list_all no_db_event evs'"
    and posts: "filter is_post evs' = map (request_for self raw) rs"
    by blast
  have "for_records self raw (r # rs) acc w =
     (Inr (acc @ sent_ids (http_replies w) (http_calls w) (r # rs)),
      w\<lparr>http_calls := http_calls w + length (r # rs), trace := trace w @ (evs @ evs')\<rparr>)"
    using one rest by (simp add: r bind_a_def)
  then show ?case
    using nodb nodb' post posts by (intro exI[of _ "evs @ evs'"]) (simp add: r)
qed

lemmas db_defs = get_db_connection_def pyodbc_connect_def conn_cursor_def cursor_execute_select_def
  cursor_fetchall_def cursor_execute_delete_def conn_commit_def cursor_rowcount_def cursor_close_def
  conn_close_def driver_call_def

text \<open>The driver calls of a fetch or a delete, by where the first failure falls.\<close>

lemma next_fault_6_None:
  "next_fault f k 6 = None \<Longrightarrow>
     f k = None \<and> f (Suc k) = None \<and> f (Suc (Suc k)) = None \<and> f (Suc (Suc (Suc k))) = None \<and>
     f (Suc (Suc (Suc (Suc k)))) = None \<and> f (Suc (Suc (Suc (Suc (Suc k))))) = None"
  by (simp add: eval_nat_numeral split: option.splits)

lemma next_fault_6_Some:
  assumes "next_fault f k 6 = Some e"
  obtains (connect) "f k = Some e"
  | (cursor) "f k = None" "f (Suc k) = Some e"
  | (execute) "f k = None" "f (Suc k) = None" "f (Suc (Suc k)) = Some e"
  | (fourth) "f k = None" "f (Suc k) = None" "f (Suc (Suc k)) = None" "f (Suc (Suc (Suc k))) = Some e"
  | (cursor_close) "f k = None" "f (Suc k) = None" "f (Suc (Suc k)) = None" "f (Suc (Suc (Suc k))) = None"
      "f (Suc (Suc (Suc (Suc k)))) = Some e"
  | (conn_close) "f k = None" "f (Suc k) = None" "f (Suc (Suc k)) = None" "f (Suc (Suc (Suc k))) = None"
      "f (Suc (Suc (Suc (Suc k)))) = None" "f (Suc (Suc (Suc (Suc (Suc k))))) = Some e"
  using assms by (auto simp add: eval_nat_numeral split: option.splits)

lemma fetch_no_fault:
  assumes "next_fault (db_faults w) (db_calls w) 6 = None"
  shows "fetch_pending_messages self w =
     (Inr (store w),
      w\<lparr>staged := [], rowcount := - 1, db_calls := db_calls w + 6,
        trace := trace w @
          [Db (Connect (connection_string self)),
           Log INFO ''Database connection established successfully'' None,
           Db Cursor, Db (Execute (select_query self) []), Db Fetchall, Db CursorClose, Db ConnClose,
           Log INFO (''Fetched '' @ string_of_nat (length (store w)) @ '' pending messages'') None]\<rparr>)"
  using next_fault_6_None[OF assms]
  by (simp add: fetch_pending_messages_def db_defs monad_defs Let_def)

lemma fetch_fault:
  assumes "next_fault (db_faults w) (db_calls w) 6 = Some e"
  shows "\<exists>w'. fetch_pending_messages self w = (Inr [], w') \<and> store w' = store w \<and>
           last (trace w') = Log ERROR ''Error fetching messages: '' (Some e) \<and>
           open_conns w' = (if db_faults w (db_calls w) = None then Suc (open_conns w) else open_conns w)"
  using assms
  by (cases rule: next_fault_6_Some)
     (simp_all add: fetch_pending_messages_def db_defs monad_defs Let_def)












lemma next_fault_4_Some:
  "next_fault f k 4 = Some e \<Longrightarrow> next_fault f k 6 = Some e"
  by (simp add: eval_nat_numeral split: option.splits)

text \<open>The cycle after its fetch.\<close>

lemma process_messages_after_fetch:
  assumes "fetch_pending_messages self w = (Inr records, w1)"
  shows "process_messages self raw w =
     catch_a
       (if records = [] then logger DEBUG ''No pending messages found'' None
        else
          bind_a (for_records self raw records []) (\<lambda>successful_ids.
          if successful_ids \<noteq> [] then
            bind_a (delete_processed_records self successful_ids) (\<lambda>u.
            logger INFO (cycle_summary successful_ids) None)
          else pure_a ()))
       (\<lambda>e. logger ERROR ''Error in process_messages: '' (Some e)) w1"
  using assms by (simp add: process_messages_def catch_a_def bind_a_def)


lemma one_record_unexpected:
  assumes "http_replies v (http_calls v) = Raises e" and "\<not> is_request_exception e"
  shows "\<exists>v'. catch_a (try_record self raw (x # xs) ids) (except_record (x # xs) ids) v = (Inr ids, v') \<and>
           last (trace v') = Log ERROR (''Error processing record '' @ str_of x @ '': '') (Some e)"
  using assms
  by (simp add: try_record_def except_record_def index0_def send_cases monad_defs Let_def)

subsection \<open>Configuration Holder\<close>






subsection \<open>Message Formatter\<close>

text \<open>
  Claim C6. The formatter is a function of the record alone (it takes no world and returns
  none): equal records give equal text. A record with at least four fields renders, one
  per line after the heading, identifier, recipient, message body and creation timestamp,
  in that order, each after its bold label; a record with fewer than four fields renders
  its raw textual representation after the bold label \<open>Record:\<close>.
\<close>

theorem format_message_layout:
  "(r = r' \<longrightarrow> format_message raw r = format_message raw r') \<and>
   (4 \<le> length r \<longrightarrow>
      format_message raw r =
        ''<b>'' @ envelope @ '' New Message</b>'' @ [CHR 0x0A] @
        ''<b>ID:</b> '' @ str_of (r ! 0) @ [CHR 0x0A] @
        ''<b>To:</b> '' @ str_of (r ! 2) @ [CHR 0x0A] @
        ''<b>Message:</b> '' @ str_of (r ! 1) @ [CHR 0x0A] @
        ''<b>Time:</b> '' @ str_of (r ! 3)) \<and>
   (length r < 4 \<longrightarrow> format_message raw r = ''<b>'' @ envelope @ '' Record:</b> '' @ raw r)"
  by (simp add: format_message_def Let_def)

theorem format_message_layout_witness:
  "format_message str_row_example [PyInt 1, PyStr ''hi'', PyStr ''a'', PyStr ''t1''] =
     ''<b>'' @ envelope @ '' New Message</b>'' @ [CHR 0x0A] @
     ''<b>ID:</b> 1'' @ [CHR 0x0A] @ ''<b>To:</b> a'' @ [CHR 0x0A] @
     ''<b>Message:</b> hi'' @ [CHR 0x0A] @ ''<b>Time:</b> t1'' \<and>
   format_message str_row_example [PyInt 7, PyStr ''x''] = ''<b>'' @ envelope @ '' Record:</b> (7, x)'' \<and>
   format_message str_row_example [] = ''<b>'' @ envelope @ '' Record:</b> ()''"
  using format_message_layout[of "[PyInt 1, PyStr ''hi'', PyStr ''a'', PyStr ''t1'']"
          "[PyInt 1, PyStr ''hi'', PyStr ''a'', PyStr ''t1'']" str_row_example]
        format_message_layout[of "[PyInt 7, PyStr ''x'']" "[PyInt 7, PyStr ''x'']" str_row_example]
        format_message_layout[of "[]" "[]" str_row_example]
  by (simp add: str_row_example_def string_of_int_def string_of_nat.simps digit_char_def)

subsection \<open>Notifier\<close>

text \<open>
  Claim C7. For every invocation of send, the result is \<open>True\<close> exactly when the endpoint
  answers the request with a non-error status; on a connection error, on a timeout and on
  an error status (400 to 599) send returns \<open>False\<close> instead of raising; and the call makes
  exactly one request, whatever its outcome.
\<close>

theorem send_result:
  "(fst (send_telegram_message self txt d w) = Inr True) =
     (\<exists>st. http_replies w (http_calls w) = Responds st \<and> \<not> error_status st) \<and>
   (http_replies w (http_calls w) = Raises (ConnectionError m)
      \<longrightarrow> fst (send_telegram_message self txt d w) = Inr False) \<and>
   (http_replies w (http_calls w) = Raises (Timeout m)
      \<longrightarrow> fst (send_telegram_message self txt d w) = Inr False) \<and>
   (http_replies w (http_calls w) = Responds st \<and> error_status st
      \<longrightarrow> fst (send_telegram_message self txt d w) = Inr False) \<and>
   http_calls (snd (send_telegram_message self txt d w)) = Suc (http_calls w) \<and>
   length (filter is_post (trace (snd (send_telegram_message self txt d w)))) =
     Suc (length (filter is_post (trace w)))"
  by (auto simp add: send_cases Let_def is_post_def split: http_outcome.splits)

theorem send_result_witness:
  "fst (send_telegram_message bot_example ''m'' PyNone (world_example [] no_faults all_acknowledged)) = Inr True \<and>
   fst (send_telegram_message bot_example ''m'' PyNone
          (world_example [] no_faults (\<lambda>n. Raises (ConnectionError ''unreachable'')))) = Inr False \<and>
   fst (send_telegram_message bot_example ''m'' PyNone
          (world_example [] no_faults (\<lambda>n. Raises (Timeout ''30 s'')))) = Inr False \<and>
   fst (send_telegram_message bot_example ''m'' PyNone
          (world_example [] no_faults (\<lambda>n. Responds 404))) = Inr False"
  using send_result[of bot_example "''m''" PyNone "world_example [] no_faults all_acknowledged" "[]" 0]
        send_result[of bot_example "''m''" PyNone
          "world_example [] no_faults (\<lambda>n. Raises (ConnectionError ''unreachable''))" "''unreachable''" 0]
        send_result[of bot_example "''m''" PyNone
          "world_example [] no_faults (\<lambda>n. Raises (Timeout ''30 s''))" "''30 s''" 0]
        send_result[of bot_example "''m''" PyNone
          "world_example [] no_faults (\<lambda>n. Responds 404)" "[]" 404]
  by (simp add: world_example_def all_acknowledged_def error_status_def)

text \<open>
  Claim C10. For every invocation of send, the request's \<open>chat_id\<close> is the supplied
  destination when that is truthy and the configured destination identifier otherwise:
  not only for an absent destination (\<open>None\<close>) but also for the empty string and for 0,
  which are falsy.
\<close>

theorem send_destination:
  "(\<exists>evs. trace (snd (send_telegram_message self txt d w)) =
           trace w @
           HttpPost (send_url self)
             \<lparr> p_chat_id = (if truthy d then d else telegram_chat_id self),
               p_text = txt, p_parse_mode = ''HTML'' \<rparr> 30 # evs) \<and>
   \<not> truthy PyNone \<and> \<not> truthy (PyStr []) \<and> \<not> truthy (PyInt 0)"
  by (auto simp add: send_cases Let_def py_or_def split: http_outcome.splits)

theorem send_destination_witness:
  "hd (trace (snd (send_telegram_message bot_example ''m'' (PyStr [])
         (world_example [] no_faults all_acknowledged)))) =
     HttpPost ''https://api.telegram.org/bot123:abc/sendMessage''
       \<lparr> p_chat_id = PyStr ''42'', p_text = ''m'', p_parse_mode = ''HTML'' \<rparr> 30 \<and>
   hd (trace (snd (send_telegram_message bot_example ''m'' (PyInt 0)
         (world_example [] no_faults all_acknowledged)))) =
     HttpPost ''https://api.telegram.org/bot123:abc/sendMessage''
       \<lparr> p_chat_id = PyStr ''42'', p_text = ''m'', p_parse_mode = ''HTML'' \<rparr> 30 \<and>
   hd (trace (snd (send_telegram_message bot_example ''m'' (PyStr ''77'')
         (world_example [] no_faults all_acknowledged)))) =
     HttpPost ''https://api.telegram.org/bot123:abc/sendMessage''
       \<lparr> p_chat_id = PyStr ''77'', p_text = ''m'', p_parse_mode = ''HTML'' \<rparr> 30"
proof -
  have t: "trace (world_example [] no_faults all_acknowledged) = []"
    by (simp add: world_example_def)
  have u: "send_url bot_example = ''https://api.telegram.org/bot123:abc/sendMessage''"
    by (simp add: send_url_def bot_example_def)
  have c: "telegram_chat_id bot_example = PyStr ''42''"
    by (simp add: bot_example_def)
  show ?thesis
    using send_destination[of bot_example "''m''" "PyStr []" "world_example [] no_faults all_acknowledged"]
          send_destination[of bot_example "''m''" "PyInt 0" "world_example [] no_faults all_acknowledged"]
          send_destination[of bot_example "''m''" "PyStr ''77''" "world_example [] no_faults all_acknowledged"]
    by (auto simp add: t u c)
qed

subsection \<open>Record Source\<close>

text \<open>
  Claim C4. \<open>fetch_pending_messages\<close> always returns a sequence and never raises; when a
  driver call inside it fails (the connection attempt, the query or any other), it returns
  the empty sequence, and the failure is logged as an error.
\<close>

theorem fetch_never_raises:
  "\<exists>rows w'. fetch_pending_messages self w = (Inr rows, w') \<and>
      (\<forall>e. next_fault (db_faults w) (db_calls w) 6 = Some e \<longrightarrow>
           rows = [] \<and> last (trace w') = Log ERROR ''Error fetching messages: '' (Some e))"
proof (cases "next_fault (db_faults w) (db_calls w) 6")
  case None
  then show ?thesis by (simp add: fetch_no_fault)
next
  case (Some e)
  from fetch_fault[OF this, of self] Some show ?thesis by auto
qed

theorem fetch_never_raises_witness:
  "fst (fetch_pending_messages bot_example
          (world_example rows_example (fault_at 0 (DriverError ''login failed'')) all_acknowledged)) = Inr [] \<and>
   fst (fetch_pending_messages bot_example
          (world_example rows_example (fault_at 2 (DriverError ''invalid object name'')) all_acknowledged)) = Inr []"
proof -
  have a: "next_fault (db_faults (world_example rows_example (fault_at 0 (DriverError ''login failed'')) all_acknowledged))
             (db_calls (world_example rows_example (fault_at 0 (DriverError ''login failed'')) all_acknowledged)) 6
           = Some (DriverError ''login failed'')"
    by (simp add: world_example_def fault_at_def eval_nat_numeral)
  have b: "next_fault (db_faults (world_example rows_example (fault_at 2 (DriverError ''invalid object name'')) all_acknowledged))
             (db_calls (world_example rows_example (fault_at 2 (DriverError ''invalid object name'')) all_acknowledged)) 6
           = Some (DriverError ''invalid object name'')"
    by (simp add: world_example_def fault_at_def eval_nat_numeral)
  show ?thesis
    using fetch_never_raises[of bot_example
            "world_example rows_example (fault_at 0 (DriverError ''login failed'')) all_acknowledged"]
          fetch_never_raises[of bot_example
            "world_example rows_example (fault_at 2 (DriverError ''invalid object name'')) all_acknowledged"]
    by (auto simp add: a b)
qed




subsection \<open>Record Sink\<close>



subsection \<open>Relay Cycle\<close>



text \<open>
  Claim C2, as amended. For every sequence of fetched records that each have at least one
  field: the loop never raises and makes exactly one request per record, in fetch order,
  each with that record's formatted text, whatever happened to the records before it; and
  an unexpected error raised while a record is being sent (an exception of the HTTP client
  that is not a \<open>RequestException\<close>) is caught by that record's handler, logged as an error
  with the record's identifier, and leaves the success list as it was.
\<close>

theorem record_errors_are_isolated:
  assumes "\<forall>r \<in> set records. r \<noteq> []"
  shows "(\<exists>ids w' evs. for_records self raw records acc w = (Inr ids, w') \<and>
            trace w' = trace w @ evs \<and>
            filter is_post evs = map (request_for self raw) records) \<and>
         (\<forall>r \<in> set records. \<forall>ids v e.
            http_replies v (http_calls v) = Raises e \<and> \<not> is_request_exception e \<longrightarrow>
            (\<exists>v'. catch_a (try_record self raw r ids) (except_record r ids) v = (Inr ids, v') \<and>
                  last (trace v') =
                    Log ERROR (''Error processing record '' @ str_of (hd r) @ '': '') (Some e)))"
proof (intro conjI ballI allI impI)
  from for_records_result[OF assms, of self raw acc w] obtain evs where
    "for_records self raw records acc w =
       (Inr (acc @ sent_ids (http_replies w) (http_calls w) records),
        w\<lparr>http_calls := http_calls w + length records, trace := trace w @ evs\<rparr>)"
    and "filter is_post evs = map (request_for self raw) records"
    by blast
  then show "\<exists>ids w' evs. for_records self raw records acc w = (Inr ids, w') \<and>
          trace w' = trace w @ evs \<and> filter is_post evs = map (request_for self raw) records"
    by (intro exI[of _ "acc @ sent_ids (http_replies w) (http_calls w) records"]
          exI[of _ "w\<lparr>http_calls := http_calls w + length records, trace := trace w @ evs\<rparr>"]
          exI[of _ evs]) simp
next
  fix r ids and v :: world and e
  assume r: "r \<in> set records"
     and e: "http_replies v (http_calls v) = Raises e \<and> \<not> is_request_exception e"
  from r assms have "r \<noteq> []" by blast
  then obtain x xs where "r = x # xs" by (cases r) simp_all
  with one_record_unexpected[of v e self raw x xs ids] e
  show "\<exists>v'. catch_a (try_record self raw r ids) (except_record r ids) v = (Inr ids, v') \<and>
          last (trace v') = Log ERROR (''Error processing record '' @ str_of (hd r) @ '': '') (Some e)"
    by simp
qed

theorem record_errors_are_isolated_witness:
  "fst (for_records bot_example str_row_example rows_example []
          (world_example rows_example no_faults
             (\<lambda>n. if n = 0 then Raises (OtherError ''not serializable'') else Responds 200))) = Inr [PyInt 2] \<and>
   filter is_post (trace (snd (for_records bot_example str_row_example rows_example []
          (world_example rows_example no_faults
             (\<lambda>n. if n = 0 then Raises (OtherError ''not serializable'') else Responds 200))))) =
     [request_for bot_example str_row_example [PyInt 1, PyStr ''hi'', PyStr ''a'', PyStr ''t1''],
      request_for bot_example str_row_example [PyInt 2, PyStr ''bye'', PyStr ''b'', PyStr ''t2'']] \<and>
   last (trace (snd (catch_a
           (try_record bot_example str_row_example [PyInt 1, PyStr ''hi'', PyStr ''a'', PyStr ''t1''] [])
           (except_record [PyInt 1, PyStr ''hi'', PyStr ''a'', PyStr ''t1''] [])
           (world_example rows_example no_faults
             (\<lambda>n. if n = 0 then Raises (OtherError ''not serializable'') else Responds 200))))) =
     Log ERROR ''Error processing record 1: '' (Some (OtherError ''not serializable''))"
proof -
  let ?w = "world_example rows_example no_faults
             (\<lambda>n. if n = 0 then Raises (OtherError ''not serializable'') else Responds 200)"
  have fields: "\<forall>r \<in> set rows_example. r \<noteq> []"
    by (simp add: rows_example_def)
  have first: "[PyInt 1, PyStr ''hi'', PyStr ''a'', PyStr ''t1''] \<in> set rows_example"
    by (simp add: rows_example_def)
  have reply: "http_replies ?w (http_calls ?w) = Raises (OtherError ''not serializable'') \<and>
               \<not> is_request_exception (OtherError ''not serializable'')"
    by (simp add: world_example_def)
  have empty: "trace ?w = []" by (simp add: world_example_def)
  have res: "fst (for_records bot_example str_row_example rows_example [] ?w) = Inr [PyInt 2]"
    by (simp add: rows_example_def try_record_def except_record_def index0_def send_cases
          monad_defs Let_def world_example_def error_status_def)
  note th = record_errors_are_isolated[OF fields, of bot_example str_row_example "[]" ?w]
  from th[THEN conjunct1] obtain ids w' evs where
    loop: "for_records bot_example str_row_example rows_example [] ?w = (Inr ids, w')"
    and tr: "trace w' = trace ?w @ evs"
    and posts: "filter is_post evs = map (request_for bot_example str_row_example) rows_example"
    by blast
  have requests: "filter is_post (trace (snd (for_records bot_example str_row_example rows_example [] ?w))) =
     [request_for bot_example str_row_example [PyInt 1, PyStr ''hi'', PyStr ''a'', PyStr ''t1''],
      request_for bot_example str_row_example [PyInt 2, PyStr ''bye'', PyStr ''b'', PyStr ''t2'']]"
    unfolding loop by (simp add: tr empty posts) (simp add: rows_example_def)
  from th[THEN conjunct2, rule_format, OF first reply, of "[]"] obtain v' where
    one: "catch_a
           (try_record bot_example str_row_example [PyInt 1, PyStr ''hi'', PyStr ''a'', PyStr ''t1''] [])
           (except_record [PyInt 1, PyStr ''hi'', PyStr ''a'', PyStr ''t1''] []) ?w = (Inr [], v')"
    and logged: "last (trace v') = Log ERROR (''Error processing record '' @
              str_of (hd [PyInt 1, PyStr ''hi'', PyStr ''a'', PyStr ''t1'']) @ '': '')
              (Some (OtherError ''not serializable''))"
    by blast
  show ?thesis
    using res requests logged
    by (simp add: one string_of_int_def string_of_nat.simps digit_char_def)
qed

text \<open>
  Claim C2 as stated fails for a record with no fields at all. The fetch returns a
  field-less record and then a well-formed one. The field-less record is formatted and
  sent; collecting its identifier raises \<open>IndexError\<close>; the handler of the inner \<open>try\<close>
  interpolates \<open>record[0]\<close> and raises again; the outer handler ends the cycle. One request
  was made, the second record was never attempted, and the store is as it was.
\<close>

theorem fieldless_record_aborts_cycle:
  "fst (process_messages bot_example str_row_example
          (world_example rows_fieldless no_faults all_acknowledged)) = Inr () \<and>
   http_calls (snd (process_messages bot_example str_row_example
          (world_example rows_fieldless no_faults all_acknowledged))) = 1 \<and>
   filter is_post (trace (snd (process_messages bot_example str_row_example
          (world_example rows_fieldless no_faults all_acknowledged)))) =
     [HttpPost ''https://api.telegram.org/bot123:abc/sendMessage''
        \<lparr> p_chat_id = PyStr ''42'', p_text = ''<b>'' @ envelope @ '' Record:</b> ()'',
          p_parse_mode = ''HTML'' \<rparr> 30] \<and>
   last (trace (snd (process_messages bot_example str_row_example
          (world_example rows_fieldless no_faults all_acknowledged)))) =
     Log ERROR ''Error in process_messages: '' (Some IndexError) \<and>
   store (snd (process_messages bot_example str_row_example
          (world_example rows_fieldless no_faults all_acknowledged))) = rows_fieldless"
proof -
  let ?w = "world_example rows_fieldless no_faults all_acknowledged"
  have nf: "next_fault (db_faults ?w) (db_calls ?w) 6 = None"
    by (simp add: world_example_def no_faults_def eval_nat_numeral)
  have st: "store ?w = rows_fieldless"
    by (simp add: world_example_def)
  show ?thesis
    unfolding process_messages_after_fetch[OF fetch_no_fault[OF nf]] st
    by (simp add: rows_fieldless_def try_record_def except_record_def index0_def send_cases
          format_message_def str_row_example_def monad_defs Let_def world_example_def
          all_acknowledged_def error_status_def is_post_def py_or_def send_url_def bot_example_def)
qed

subsection \<open>End-to-end scenarios\<close>

text \<open>
  X1. The store holds the rows \<open>(1, hi, a, t1)\<close> and \<open>(2, bye, b, t2)\<close> and both sends are
  acknowledged: the cycle returns, its driver calls are the six of the fetch and then the
  six of one delete bound to the identifiers 1 and 2, both rows are gone from the store,
  and the cycle's last log line reports two messages sent.
\<close>

theorem end_to_end_both_sent:
  "fst (process_messages bot_example str_row_example
          (world_example rows_example no_faults all_acknowledged)) = Inr () \<and>
   store (snd (process_messages bot_example str_row_example
          (world_example rows_example no_faults all_acknowledged))) = [] \<and>
   filter (\<lambda>ev. \<not> no_db_event ev) (trace (snd (process_messages bot_example str_row_example
          (world_example rows_example no_faults all_acknowledged)))) =
     [Db (Connect (connection_string bot_example)), Db Cursor,
      Db (Execute ''SELECT id, message_text, recipient, created_at FROM pending_view'' []),
      Db Fetchall, Db CursorClose, Db ConnClose,
      Db (Connect (connection_string bot_example)), Db Cursor,
      Db (Execute ''DELETE FROM pending WHERE id IN (?,?)'' [PyInt 1, PyInt 2]),
      Db Commit, Db CursorClose, Db ConnClose] \<and>
   last (trace (snd (process_messages bot_example str_row_example
          (world_example rows_example no_faults all_acknowledged)))) =
     Log INFO ''Processing cycle completed. Sent 2 messages'' None"
proof -
  let ?w = "world_example rows_example no_faults all_acknowledged"
  have nf: "next_fault (db_faults ?w) (db_calls ?w) 6 = None"
    by (simp add: world_example_def no_faults_def eval_nat_numeral)
  have st: "store ?w = rows_example"
    by (simp add: world_example_def)
  show ?thesis
    unfolding process_messages_after_fetch[OF fetch_no_fault[OF nf]] st
    by (simp add: rows_example_def try_record_def except_record_def index0_def send_cases
          format_message_def monad_defs Let_def world_example_def all_acknowledged_def
          error_status_def py_or_def no_faults_def no_db_event_def
          delete_processed_records_def db_defs delete_query_def select_query_def cycle_summary_def
          string_of_nat.simps digit_char_def)
       (simp add: bot_example_def)
qed

text \<open>
  X2. The store holds the one row \<open>(3, x, c, t3)\<close> and its send fails: the cycle returns,
  makes no driver call after the six of the fetch (delete is never called), the row stays
  in the store, and the next fetch returns it again.
\<close>

theorem end_to_end_send_fails:
  "fst (process_messages bot_example str_row_example
          (world_example [[PyInt 3, PyStr ''x'', PyStr ''c'', PyStr ''t3'']] no_faults
             (\<lambda>n. Raises (ConnectionError ''unreachable'')))) = Inr () \<and>
   store (snd (process_messages bot_example str_row_example
          (world_example [[PyInt 3, PyStr ''x'', PyStr ''c'', PyStr ''t3'']] no_faults
             (\<lambda>n. Raises (ConnectionError ''unreachable''))))) =
     [[PyInt 3, PyStr ''x'', PyStr ''c'', PyStr ''t3'']] \<and>
   db_calls (snd (process_messages bot_example str_row_example
          (world_example [[PyInt 3, PyStr ''x'', PyStr ''c'', PyStr ''t3'']] no_faults
             (\<lambda>n. Raises (ConnectionError ''unreachable''))))) = 6 \<and>
   fst (fetch_pending_messages bot_example
          (snd (process_messages bot_example str_row_example
             (world_example [[PyInt 3, PyStr ''x'', PyStr ''c'', PyStr ''t3'']] no_faults
                (\<lambda>n. Raises (ConnectionError ''unreachable'')))))) =
     Inr [[PyInt 3, PyStr ''x'', PyStr ''c'', PyStr ''t3'']]"
proof -
  let ?w = "world_example [[PyInt 3, PyStr ''x'', PyStr ''c'', PyStr ''t3'']] no_faults
             (\<lambda>n. Raises (ConnectionError ''unreachable''))"
  have nf: "next_fault (db_faults ?w) (db_calls ?w) 6 = None"
    by (simp add: world_example_def no_faults_def eval_nat_numeral)
  have st: "store ?w = [[PyInt 3, PyStr ''x'', PyStr ''c'', PyStr ''t3'']]"
    by (simp add: world_example_def)
  have cycle: "fst (process_messages bot_example str_row_example ?w) = Inr ()"
    and kept: "store (snd (process_messages bot_example str_row_example ?w)) =
       [[PyInt 3, PyStr ''x'', PyStr ''c'', PyStr ''t3'']]"
    and calls: "db_calls (snd (process_messages bot_example str_row_example ?w)) = 6"
    and faults: "db_faults (snd (process_messages bot_example str_row_example ?w)) = no_faults"
    unfolding process_messages_after_fetch[OF fetch_no_fault[OF nf]] st
    by (simp_all add: try_record_def except_record_def index0_def send_cases
          format_message_def monad_defs Let_def world_example_def)
  have later: "next_fault (db_faults (snd (process_messages bot_example str_row_example ?w)))
                 (db_calls (snd (process_messages bot_example str_row_example ?w))) 6 = None"
    by (simp add: faults no_faults_def eval_nat_numeral)
  show ?thesis
    using cycle kept calls by (simp add: fetch_no_fault[OF later])
qed

end
